theory Spec2Isabelle
  imports Complex_Main
begin

section \<open>Data model\<close>

text \<open>
  JavaScript numbers are modelled as exact reals: NaN and the infinities are outside the
  model, and so is rounding, except for the totals of a run, whose additions in double
  precision have a model of their own below. The model follows the source wherever no
  division by zero occurs, which is the case for the positive prices and portfolio values
  of the data model.

  A date string \<^verbatim>\<open>"YYYY-MM-DD"\<close> is the record of its three numbers. Two zero-padded
  date strings are equal exactly when the numbers are; \<^verbatim>\<open>date.substring(0, 7)\<close> is the
  pair of year and month. \<^verbatim>\<open>new Date(s)\<close> of such a string is UTC midnight, and the
  local-time getters \<^verbatim>\<open>getDate\<close>, \<^verbatim>\<open>getMonth\<close>, \<^verbatim>\<open>getDay\<close> are modelled for a
  runtime whose time zone is at or east of UTC, where they read the same calendar day.
\<close>

record iso_date =
  year :: nat
  month :: nat
  day :: nat

definition monthKey :: "iso_date \<Rightarrow> nat \<times> nat" where
  "monthKey d = (year d, month d)"

definition getDate :: "iso_date \<Rightarrow> nat" where
  "getDate d = day d"

definition getMonth :: "iso_date \<Rightarrow> nat" where
  "getMonth d = month d - 1"

text \<open>Day of the week of a Gregorian date, 0 for Sunday, as \<^verbatim>\<open>Date.getDay\<close> numbers it.\<close>

definition getDay :: "iso_date \<Rightarrow> nat" where
  "getDay d =
     (let y = (if month d < 3 then year d - 1 else year d);
          t = [0, 3, 2, 5, 0, 3, 5, 1, 4, 6, 2, 4] ! (month d - 1)
      in (y + y div 4 - y div 100 + y div 400 + t + day d) mod 7)"

text \<open>
  A field of type \<^verbatim>\<open>number | undefined\<close> is a \<open>real option\<close>; in a boolean position
  JavaScript takes \<^verbatim>\<open>undefined\<close> and \<^verbatim>\<open>0\<close> for false.
\<close>

record MarketDataPoint =
  pt_date :: iso_date
  pt_price :: real
  sma20 :: "real option"
  sma50 :: "real option"
  sma100 :: "real option"
  sma200 :: "real option"
  rsiWeekly :: "real option"
  vix :: "real option"

text \<open>
  The \<^verbatim>\<open>reason\<close> of a transaction is a list of fragments joined by commas; the model keeps
  the fragments and the numbers they print, not the formatted text.
\<close>

datatype reason_part =
    SellInMaySkip real
  | DebtBalancing real
  | SellInMayBonus real
  | RsiSkip real real
  | RsiDeploy real
  | SmaBoost nat real
  | VixBoost real real real
  | PortfolioImport

record DcaTransaction =
  date :: iso_date
  price :: real
  investedAmount :: real
  sharesBought :: real
  accumulatedShares :: real
  portfolioValue :: real
  multiplierApplied :: real
  reason :: "reason_part list"

section \<open>Financial calculations (utils/calculations.ts)\<close>

subsection \<open>calculateXIRR\<close>







subsection \<open>calculateMaxDrawdown\<close>

record value_point =
  vp_date :: iso_date
  vp_value :: real

record drawdown_point =
  dd_date :: iso_date
  drawdown :: real

text \<open>The dates of the result are \<open>None\<close> where the source returns the empty string.\<close>

record DrawdownResult =
  maxDrawdown :: real
  maxDrawdownPeakDate :: "iso_date option"
  maxDrawdownTroughDate :: "iso_date option"
  currentDrawdown :: real
  drawdownSeries :: "drawdown_point list"

record dd_state =
  st_peak :: real
  st_peakDate :: iso_date
  st_maxDrawdown :: real
  st_maxDrawdownPeakDate :: iso_date
  st_maxDrawdownTroughDate :: iso_date
  st_series :: "drawdown_point list"

fun dd_loop :: "value_point list \<Rightarrow> dd_state \<Rightarrow> dd_state" where
  "dd_loop [] st = st"
| "dd_loop (p # ps) st =
     (let st1 = (if vp_value p > st_peak st
                 then st\<lparr>st_peak := vp_value p, st_peakDate := vp_date p\<rparr> else st);
          dd = (st_peak st1 - vp_value p) / st_peak st1;
          st2 = st1\<lparr>st_series := st_series st1 @ [\<lparr>dd_date = vp_date p, drawdown = dd * 100\<rparr>]\<rparr>;
          st3 = (if dd > st_maxDrawdown st2
                 then st2\<lparr>st_maxDrawdown := dd, st_maxDrawdownPeakDate := st_peakDate st2,
                          st_maxDrawdownTroughDate := vp_date p\<rparr>
                 else st2)
      in dd_loop ps st3)"

definition calculateMaxDrawdown :: "value_point list \<Rightarrow> DrawdownResult" where
  "calculateMaxDrawdown portfolioValues =
     (case portfolioValues of
        [] \<Rightarrow> \<lparr>maxDrawdown = 0, maxDrawdownPeakDate = None, maxDrawdownTroughDate = None,
               currentDrawdown = 0, drawdownSeries = []\<rparr>
      | p0 # _ \<Rightarrow>
          (let st = dd_loop portfolioValues
                      \<lparr>st_peak = vp_value p0, st_peakDate = vp_date p0, st_maxDrawdown = 0,
                       st_maxDrawdownPeakDate = vp_date p0, st_maxDrawdownTroughDate = vp_date p0,
                       st_series = []\<rparr>;
               lastValue = vp_value (last portfolioValues);
               cur = (st_peak st - lastValue) / st_peak st
           in \<lparr>maxDrawdown = st_maxDrawdown st * 100,
               maxDrawdownPeakDate = Some (st_maxDrawdownPeakDate st),
               maxDrawdownTroughDate = Some (st_maxDrawdownTroughDate st),
               currentDrawdown = cur * 100,
               drawdownSeries = st_series st\<rparr>))"

subsection \<open>calculateRSI\<close>

text \<open>
  The period is a count (the engine passes 14), so it is a natural number here. The
  second loop runs \<open>i\<close> over \<open>period, ..., length prices - 1\<close>; \<open>wilder\<close> takes that
  list of indices.
\<close>

fun wilder :: "real list \<Rightarrow> real list \<Rightarrow> nat \<Rightarrow> nat list \<Rightarrow> real \<Rightarrow> real \<Rightarrow> real list" where
  "wilder gains losses period [] avgGain avgLoss = []"
| "wilder gains losses period (i # is) avgGain avgLoss =
     (let avgGain' = (if i > period
                      then (avgGain * (real period - 1) + gains ! (i - 1)) / real period
                      else avgGain);
          avgLoss' = (if i > period
                      then (avgLoss * (real period - 1) + losses ! (i - 1)) / real period
                      else avgLoss);
          rs = (if avgLoss' = 0 then 100 else avgGain' / avgLoss');
          rsiValue = 100 - (100 / (1 + rs))
      in rsiValue # wilder gains losses period is avgGain' avgLoss')"

definition calculateRSI :: "real list \<Rightarrow> nat \<Rightarrow> real list" where
  "calculateRSI prices period =
     (if length prices < period + 1 then map (\<lambda>_. 50) prices
      else let changes = map (\<lambda>i. prices ! i - prices ! (i - 1)) [1..<length prices];
               gains = map (\<lambda>c. if c > 0 then c else 0) changes;
               losses = map (\<lambda>c. if c < 0 then \<bar>c\<bar> else 0) changes;
               avgGain = sum_list (take period gains) / real period;
               avgLoss = sum_list (take period losses) / real period
           in replicate period 50
              @ wilder gains losses period [period..<length prices] avgGain avgLoss)"

subsection \<open>calculateBestWorstMonths\<close>

record month_return =
  mr_month :: "(nat \<times> nat) option"
  mr_return :: real

text \<open>
  The loop over \<open>i = 1, ..., length - 1\<close>: \<open>prev\<close> is \<open>transactions[i - 1]\<close>, the list
  holds \<open>transactions[i]\<close> onwards.
\<close>

fun months_loop ::
  "DcaTransaction \<Rightarrow> DcaTransaction list \<Rightarrow> real \<Rightarrow> nat \<times> nat \<Rightarrow> month_return list
     \<Rightarrow> real \<times> (nat \<times> nat) \<times> month_return list" where
  "months_loop prev [] prevMonthValue currentMonth monthlyReturns =
     (prevMonthValue, currentMonth, monthlyReturns)"
| "months_loop prev (t # ts) prevMonthValue currentMonth monthlyReturns =
     (let txMonth = monthKey (date t)
      in if txMonth \<noteq> currentMonth
         then (let monthReturn = (portfolioValue prev - prevMonthValue) / prevMonthValue
               in months_loop t ts (portfolioValue prev) txMonth
                    (monthlyReturns @ [\<lparr>mr_month = Some currentMonth, mr_return = monthReturn * 100\<rparr>]))
         else months_loop t ts prevMonthValue currentMonth monthlyReturns)"

text \<open>
  \<^verbatim>\<open>sort((a, b) => b.return - a.return)\<close> is a stable sort by descending return, which
  \<open>sort_key\<close> on the negated return is.
\<close>

definition calculateBestWorstMonths :: "DcaTransaction list \<Rightarrow> month_return \<times> month_return" where
  "calculateBestWorstMonths transactions =
     (if length transactions < 2
      then (\<lparr>mr_month = None, mr_return = 0\<rparr>, \<lparr>mr_month = None, mr_return = 0\<rparr>)
      else let (prevMonthValue, currentMonth, monthlyReturns) =
                 months_loop (hd transactions) (tl transactions)
                   (portfolioValue (hd transactions)) (monthKey (date (hd transactions))) [];
               lastTx = last transactions;
               lastReturn = (portfolioValue lastTx - prevMonthValue) / prevMonthValue;
               monthlyReturns' = monthlyReturns @ [\<lparr>mr_month = Some currentMonth, mr_return = lastReturn * 100\<rparr>]
           in if length monthlyReturns' = 0
              then (\<lparr>mr_month = None, mr_return = 0\<rparr>, \<lparr>mr_month = None, mr_return = 0\<rparr>)
              else let sorted = sort_key (\<lambda>m. - mr_return m) monthlyReturns'
                   in (\<lparr>mr_month = mr_month (hd sorted), mr_return = mr_return (hd sorted)\<rparr>,
                       \<lparr>mr_month = mr_month (last sorted), mr_return = mr_return (last sorted)\<rparr>))"

section \<open>The backtest engine (runBacktest)\<close>

datatype DcaFrequency = Daily | Weekly | Monthly | Quarterly

text \<open>The form state that \<^verbatim>\<open>runBacktest\<close> reads; \<open>useSmaRule\<close> is the SMA-100 toggle.\<close>

record RuleConfig =
  frequency :: DcaFrequency
  baseAmount :: real
  useDcaStrict :: bool
  useSellInMay :: bool
  useRsiRule :: bool
  useSma20Rule :: bool
  useSma50Rule :: bool
  useSmaRule :: bool
  useSma200Rule :: bool
  useVixRule :: bool
  sma20Multiplier :: real
  sma50Multiplier :: real
  sma100Multiplier :: real
  sma200Multiplier :: real
  vixMultiplier :: real
  vixThreshold :: real

text \<open>
  A row of the imported portfolio. \<open>ptx_date\<close> is \<^verbatim>\<open>ptx.date.split(' ')[0]\<close>, the date
  before the time of day; the engine reads no other field than these four.
\<close>

record ApiTransaction =
  ptx_date :: iso_date
  quantity :: real
  ptx_price :: real
  invested_amount :: real

datatype backtest_error = NoTransactionGenerated

subsection \<open>Portfolio-import mode\<close>

text \<open>\<^verbatim>\<open>data.find(d => d.date === day) || data[data.length - 1]\<close>\<close>

definition pricePoint :: "MarketDataPoint list \<Rightarrow> ApiTransaction \<Rightarrow> MarketDataPoint option" where
  "pricePoint data ptx =
     (case find (\<lambda>d. pt_date d = ptx_date ptx) data of
        Some d \<Rightarrow> Some d
      | None \<Rightarrow> (if data = [] then None else Some (last data)))"

text \<open>\<^verbatim>\<open>pricePoint?.price || ptx.price\<close>\<close>

definition valuationPrice :: "MarketDataPoint list \<Rightarrow> ApiTransaction \<Rightarrow> real" where
  "valuationPrice data ptx =
     (case pricePoint data ptx of
        None \<Rightarrow> ptx_price ptx
      | Some d \<Rightarrow> (if pt_price d \<noteq> 0 then pt_price d else ptx_price ptx))"

fun import_loop :: "MarketDataPoint list \<Rightarrow> real \<Rightarrow> ApiTransaction list \<Rightarrow> DcaTransaction list" where
  "import_loop data totalShares [] = []"
| "import_loop data totalShares (ptx # rest) =
     (let totalShares' = totalShares + quantity ptx
      in \<lparr>date = ptx_date ptx, price = ptx_price ptx, investedAmount = invested_amount ptx,
          sharesBought = quantity ptx, accumulatedShares = totalShares',
          portfolioValue = totalShares' * valuationPrice data ptx,
          multiplierApplied = 1, reason = [PortfolioImport]\<rparr>
         # import_loop data totalShares' rest)"

subsection \<open>The schedule\<close>

definition dcaDates :: "DcaFrequency \<Rightarrow> MarketDataPoint list \<Rightarrow> MarketDataPoint list" where
  "dcaDates freq data =
     filter (\<lambda>pt. let d = pt_date pt
                  in if freq = Monthly then getDate d \<le> 3
                     else if freq = Weekly then getDay d = 1
                     else if freq = Daily then True
                     else if freq = Quarterly then getDate d \<le> 3 \<and> getMonth d \<in> set [0, 3, 6, 9]
                     else False) data"

fun dedupMonths :: "(nat \<times> nat) set \<Rightarrow> MarketDataPoint list \<Rightarrow> MarketDataPoint list" where
  "dedupMonths seenMonths [] = []"
| "dedupMonths seenMonths (pt # pts) =
     (let m = monthKey (pt_date pt)
      in if m \<in> seenMonths then dedupMonths seenMonths pts
         else pt # dedupMonths (insert m seenMonths) pts)"

definition filteredDates :: "DcaFrequency \<Rightarrow> MarketDataPoint list \<Rightarrow> MarketDataPoint list" where
  "filteredDates freq data =
     (if freq = Monthly then dedupMonths {} (dcaDates freq data) else dcaDates freq data)"

subsection \<open>Precomputation\<close>

definition isSummerMonth :: "iso_date \<Rightarrow> bool" where
  "isSummerMonth d = (getMonth d \<ge> 4 \<and> getMonth d \<le> 7)"

definition summerDates :: "MarketDataPoint list \<Rightarrow> MarketDataPoint list" where
  "summerDates fd = filter (\<lambda>pt. getMonth (pt_date pt) \<ge> 4 \<and> getMonth (pt_date pt) \<le> 7) fd"

definition winterDates :: "MarketDataPoint list \<Rightarrow> MarketDataPoint list" where
  "winterDates fd = filter (\<lambda>pt. getMonth (pt_date pt) \<ge> 8 \<or> getMonth (pt_date pt) \<le> 3) fd"

definition summerSavings :: "RuleConfig \<Rightarrow> MarketDataPoint list \<Rightarrow> real" where
  "summerSavings cfg fd = real (length (summerDates fd)) * baseAmount cfg"

definition sellInMayBonus :: "RuleConfig \<Rightarrow> MarketDataPoint list \<Rightarrow> real" where
  "sellInMayBonus cfg fd =
     (if length (winterDates fd) > 0
      then summerSavings cfg fd / real (length (winterDates fd)) else 0)"

text \<open>
  The four \<^verbatim>\<open>wasAboveSmaNMap\<close> maps are built by one loop over consecutive rows of the
  whole series; \<open>was_above_loop\<close> is that loop for one SMA field.
\<close>

fun was_above_loop ::
  "(MarketDataPoint \<Rightarrow> real option) \<Rightarrow> MarketDataPoint list \<Rightarrow> (iso_date \<rightharpoonup> bool)
     \<Rightarrow> (iso_date \<rightharpoonup> bool)" where
  "was_above_loop sma (prevDay # today # rest) m =
     was_above_loop sma (today # rest)
       (case sma prevDay of
          None \<Rightarrow> m
        | Some s \<Rightarrow> (if s \<noteq> 0 then m(pt_date today \<mapsto> (pt_price prevDay \<ge> s)) else m))"
| "was_above_loop sma _ m = m"

definition wasAboveSma20Map :: "MarketDataPoint list \<Rightarrow> (iso_date \<rightharpoonup> bool)" where
  "wasAboveSma20Map data = was_above_loop sma20 data Map.empty"

definition wasAboveSma50Map :: "MarketDataPoint list \<Rightarrow> (iso_date \<rightharpoonup> bool)" where
  "wasAboveSma50Map data = was_above_loop sma50 data Map.empty"

definition wasAboveSma100Map :: "MarketDataPoint list \<Rightarrow> (iso_date \<rightharpoonup> bool)" where
  "wasAboveSma100Map data = was_above_loop sma100 data Map.empty"

definition wasAboveSma200Map :: "MarketDataPoint list \<Rightarrow> (iso_date \<rightharpoonup> bool)" where
  "wasAboveSma200Map data = was_above_loop sma200 data Map.empty"

text \<open>\<^verbatim>\<open>data.findIndex(p)\<close>, with \<open>None\<close> for -1.\<close>

fun findIndex :: "('a \<Rightarrow> bool) \<Rightarrow> 'a list \<Rightarrow> nat option" where
  "findIndex P [] = None"
| "findIndex P (x # xs) =
     (if P x then Some 0 else (case findIndex P xs of None \<Rightarrow> None | Some i \<Rightarrow> Some (Suc i)))"

text \<open>
  The largest VIX over the rows \<open>lastDcaIndex, ..., dcaDateIndex\<close> of the series, for each
  scheduled date. When \<open>findIndex\<close> gives -1 the inner loop does not run and
  \<open>lastDcaIndex\<close> becomes 0.
\<close>

fun max_vix_loop ::
  "MarketDataPoint list \<Rightarrow> MarketDataPoint list \<Rightarrow> nat \<Rightarrow> (iso_date \<rightharpoonup> real)
     \<Rightarrow> (iso_date \<rightharpoonup> real)" where
  "max_vix_loop data [] lastDcaIndex m = m"
| "max_vix_loop data (f # fs) lastDcaIndex m =
     (case findIndex (\<lambda>d. pt_date d = pt_date f) data of
        None \<Rightarrow> max_vix_loop data fs 0 (m(pt_date f \<mapsto> 0))
      | Some dcaDateIndex \<Rightarrow>
          max_vix_loop data fs (dcaDateIndex + 1)
            (m(pt_date f \<mapsto>
               fold (\<lambda>j maxVix. case vix (data ! j) of
                                  None \<Rightarrow> maxVix
                                | Some v \<Rightarrow> (if v \<noteq> 0 \<and> v > maxVix then v else maxVix))
                    [lastDcaIndex..<min (dcaDateIndex + 1) (length data)] 0)))"

definition maxVixSincePrevDcaMap ::
  "MarketDataPoint list \<Rightarrow> MarketDataPoint list \<Rightarrow> (iso_date \<rightharpoonup> real)" where
  "maxVixSincePrevDcaMap data fd = max_vix_loop data fd 0 Map.empty"

subsection \<open>One scheduled date\<close>

record sim_state =
  totalShares :: real
  totalInvested :: real
  budgetDebt :: real
  savedCash :: real

text \<open>The transaction pushed by every branch that invests nothing.\<close>

definition skipTx :: "sim_state \<Rightarrow> MarketDataPoint \<Rightarrow> reason_part list \<Rightarrow> DcaTransaction" where
  "skipTx st pt reasons =
     \<lparr>date = pt_date pt, price = pt_price pt, investedAmount = 0, sharesBought = 0,
      accumulatedShares = totalShares st, portfolioValue = totalShares st * pt_price pt,
      multiplierApplied = 0, reason = reasons\<rparr>"

text \<open>\<^verbatim>\<open>pt.smaN && pt.price < pt.smaN\<close>\<close>

definition currentBelowSma :: "real option \<Rightarrow> real \<Rightarrow> bool" where
  "currentBelowSma sma p = (case sma of None \<Rightarrow> False | Some s \<Rightarrow> s \<noteq> 0 \<and> p < s)"

text \<open>The four SMA rules, in the order of the source, on the multiplier and the reasons.\<close>

definition smaRules :: "RuleConfig \<Rightarrow> MarketDataPoint \<Rightarrow> real \<times> reason_part list \<Rightarrow> real \<times> reason_part list" where
  "smaRules cfg pt mr =
     (let (m0, r0) = mr;
          (m1, r1) = (if useSma20Rule cfg \<and> currentBelowSma (sma20 pt) (pt_price pt)
                      then (m0 + (sma20Multiplier cfg - 1), r0 @ [SmaBoost 20 (sma20Multiplier cfg)])
                      else (m0, r0));
          (m2, r2) = (if useSma50Rule cfg \<and> currentBelowSma (sma50 pt) (pt_price pt)
                      then (m1 + (sma50Multiplier cfg - 1), r1 @ [SmaBoost 50 (sma50Multiplier cfg)])
                      else (m1, r1));
          (m3, r3) = (if useSmaRule cfg \<and> currentBelowSma (sma100 pt) (pt_price pt)
                      then (m2 + (sma100Multiplier cfg - 1), r2 @ [SmaBoost 100 (sma100Multiplier cfg)])
                      else (m2, r2))
      in if useSma200Rule cfg \<and> currentBelowSma (sma200 pt) (pt_price pt)
         then (m3 + (sma200Multiplier cfg - 1), r3 @ [SmaBoost 200 (sma200Multiplier cfg)])
         else (m3, r3))"

text \<open>\<^verbatim>\<open>maxVixSincePrevDcaMap.get(pt.date) || pt.vix || 0\<close>\<close>

definition maxVixSincePrev :: "(iso_date \<rightharpoonup> real) \<Rightarrow> MarketDataPoint \<Rightarrow> real" where
  "maxVixSincePrev maxVixMap pt =
     (let own = (case vix pt of None \<Rightarrow> 0 | Some v \<Rightarrow> v)
      in case maxVixMap (pt_date pt) of
           None \<Rightarrow> own
         | Some v \<Rightarrow> (if v \<noteq> 0 then v else own))"

definition vixRule :: "RuleConfig \<Rightarrow> (iso_date \<rightharpoonup> real) \<Rightarrow> MarketDataPoint \<Rightarrow> real \<times> reason_part list \<Rightarrow> real \<times> reason_part list" where
  "vixRule cfg maxVixMap pt mr =
     (let (m, r) = mr
      in if useVixRule cfg \<and> maxVixSincePrev maxVixMap pt > vixThreshold cfg
         then (m + (vixMultiplier cfg - 1),
               r @ [VixBoost (vixThreshold cfg) (maxVixSincePrev maxVixMap pt) (vixMultiplier cfg)])
         else (m, r))"

text \<open>
  The end of the loop body, from the SMA rules on: \<open>amount\<close> and \<open>reasons\<close> are what the
  debt, Sell-in-May and RSI stages have left.
\<close>

definition investTx ::
  "RuleConfig \<Rightarrow> (iso_date \<rightharpoonup> real) \<Rightarrow> sim_state \<Rightarrow> MarketDataPoint \<Rightarrow> real \<Rightarrow> reason_part list
     \<Rightarrow> sim_state \<times> DcaTransaction" where
  "investTx cfg maxVixMap st pt amount reasons =
     (let (multiplier, reasons') = vixRule cfg maxVixMap pt (smaRules cfg pt (1, reasons));
          finalAmount = amount * multiplier;
          sharesBought' = finalAmount / pt_price pt;
          extraSpent = finalAmount - baseAmount cfg;
          budgetDebt' = (if extraSpent > 0 then budgetDebt st + extraSpent else budgetDebt st);
          totalShares' = totalShares st + sharesBought'
      in (st\<lparr>totalShares := totalShares', totalInvested := totalInvested st + finalAmount,
             budgetDebt := budgetDebt'\<rparr>,
          \<lparr>date = pt_date pt, price = pt_price pt, investedAmount = finalAmount,
           sharesBought = sharesBought', accumulatedShares = totalShares',
           portfolioValue = totalShares' * pt_price pt,
           multiplierApplied = multiplier, reason = reasons'\<rparr>))"

text \<open>The RSI stage: skip and save above 70, deploy the saved cash below 30.\<close>

definition rsiStage ::
  "RuleConfig \<Rightarrow> (iso_date \<rightharpoonup> real) \<Rightarrow> sim_state \<Rightarrow> MarketDataPoint \<Rightarrow> real \<Rightarrow> reason_part list
     \<Rightarrow> sim_state \<times> DcaTransaction" where
  "rsiStage cfg maxVixMap st pt amount reasons =
     (case (if useRsiRule cfg then rsiWeekly pt else None) of
        None \<Rightarrow> investTx cfg maxVixMap st pt amount reasons
      | Some rsi \<Rightarrow>
          if rsi = 0 then investTx cfg maxVixMap st pt amount reasons
          else if rsi > 70
          then (let savedCash' = savedCash st + baseAmount cfg
                in (st\<lparr>savedCash := savedCash'\<rparr>, skipTx st pt [RsiSkip rsi savedCash']))
          else if rsi < 30 \<and> savedCash st > 0
          then investTx cfg maxVixMap (st\<lparr>savedCash := 0\<rparr>) pt (amount + savedCash st)
                 (reasons @ [RsiDeploy (savedCash st)])
          else investTx cfg maxVixMap st pt amount reasons)"

definition dca_step ::
  "RuleConfig \<Rightarrow> real \<Rightarrow> real \<Rightarrow> (iso_date \<rightharpoonup> real) \<Rightarrow> sim_state \<Rightarrow> MarketDataPoint
     \<Rightarrow> sim_state \<times> DcaTransaction" where
  "dca_step cfg summerSavings' sellInMayBonus' maxVixMap st pt =
     (if useDcaStrict cfg
      then (let amount = baseAmount cfg;
                sharesBought' = amount / pt_price pt;
                totalShares' = totalShares st + sharesBought'
            in (st\<lparr>totalShares := totalShares', totalInvested := totalInvested st + amount\<rparr>,
                \<lparr>date = pt_date pt, price = pt_price pt, investedAmount = amount,
                 sharesBought = sharesBought', accumulatedShares = totalShares',
                 portfolioValue = totalShares' * pt_price pt,
                 multiplierApplied = 1, reason = []\<rparr>))
      else if useSellInMay cfg \<and> isSummerMonth (pt_date pt)
      then (st, skipTx st pt [SellInMaySkip summerSavings'])
      else (let inDebt = (budgetDebt st \<ge> baseAmount cfg);
                st1 = (if inDebt then st\<lparr>budgetDebt := budgetDebt st - baseAmount cfg\<rparr> else st);
                effectiveBaseAmount = (if inDebt then 0 else baseAmount cfg);
                reasons1 = (if inDebt then [DebtBalancing (budgetDebt st1)] else []);
                bonus = (useSellInMay cfg \<and> \<not> isSummerMonth (pt_date pt) \<and> sellInMayBonus' > 0);
                amount = (if bonus then effectiveBaseAmount + sellInMayBonus' else effectiveBaseAmount);
                reasons2 = (if bonus then reasons1 @ [SellInMayBonus sellInMayBonus'] else reasons1)
            in if amount \<le> 0 then (st1, skipTx st1 pt reasons2)
               else rsiStage cfg maxVixMap st1 pt amount reasons2))"

subsection \<open>The ledger\<close>

fun sim_loop ::
  "RuleConfig \<Rightarrow> real \<Rightarrow> real \<Rightarrow> (iso_date \<rightharpoonup> real) \<Rightarrow> sim_state \<Rightarrow> MarketDataPoint list
     \<Rightarrow> DcaTransaction list" where
  "sim_loop cfg ss bonus maxVixMap st [] = []"
| "sim_loop cfg ss bonus maxVixMap st (pt # pts) =
     (let (st', tx) = dca_step cfg ss bonus maxVixMap st pt
      in tx # sim_loop cfg ss bonus maxVixMap st' pts)"

definition simulate :: "RuleConfig \<Rightarrow> MarketDataPoint list \<Rightarrow> DcaTransaction list" where
  "simulate cfg data =
     (let fd = filteredDates (frequency cfg) data
      in sim_loop cfg (summerSavings cfg fd) (sellInMayBonus cfg fd) (maxVixSincePrevDcaMap data fd)
           \<lparr>totalShares = 0, totalInvested = 0, budgetDebt = 0, savedCash = 0\<rparr> fd)"

definition buildTransactions ::
  "RuleConfig \<Rightarrow> bool \<Rightarrow> ApiTransaction list \<Rightarrow> MarketDataPoint list \<Rightarrow> DcaTransaction list" where
  "buildTransactions cfg usePortfolio portfolioTxs data =
     (if usePortfolio \<and> length portfolioTxs > 0 then import_loop data 0 portfolioTxs
      else simulate cfg data)"

text \<open>\<^verbatim>\<open>runBacktest\<close> throws when the ledger is empty.\<close>

definition backtestLedger ::
  "RuleConfig \<Rightarrow> bool \<Rightarrow> ApiTransaction list \<Rightarrow> MarketDataPoint list
     \<Rightarrow> backtest_error + DcaTransaction list" where
  "backtestLedger cfg usePortfolio portfolioTxs data =
     (let txs = buildTransactions cfg usePortfolio portfolioTxs data
      in if length txs = 0 then Inl NoTransactionGenerated else Inr txs)"

subsection \<open>Totals in double precision\<close>

text \<open>
  The amounts of the engine are IEEE 754 binary64 numbers, and the totals of a run
  (\<^verbatim>\<open>totalInvested += amount\<close> in the loop, \<^verbatim>\<open>txs.reduce((sum, t) => sum + t.investedAmount, 0)\<close>
  after it) are rounded after every addition. Where a statement depends on that rounding,
  a finite binary64 number is the pair \<open>(m, e)\<close> of integers that stands for
  \<open>m * 2 ^ e\<close>, and an operation is the exact operation followed by rounding to 53
  significant bits, to the nearest, ties to the even significand. Overflow and subnormal
  numbers are outside this model.
\<close>

type_synonym binary64 = "int \<times> int"

definition b64_value :: "binary64 \<Rightarrow> real" where
  "b64_value x =
     (if 0 \<le> snd x then real_of_int (fst x) * 2 ^ nat (snd x)
      else real_of_int (fst x) / 2 ^ nat (- snd x))"

text \<open>The number of binary digits of a natural number.\<close>

function bit_length :: "nat \<Rightarrow> nat" where
  "bit_length n = (if n = 0 then 0 else Suc (bit_length (n div 2)))"
  by pat_completeness auto
termination
  by (relation "measure id") auto

declare bit_length.simps [simp del]

definition round53 :: "int \<Rightarrow> int \<Rightarrow> binary64" where
  "round53 m e =
     (let n = bit_length (nat \<bar>m\<bar>)
      in if n \<le> 53 then (m, e)
         else let s = n - 53; q = m div 2 ^ s; r = m mod 2 ^ s
              in (if 2 * r > 2 ^ s \<or> (2 * r = 2 ^ s \<and> odd q) then q + 1 else q, e + int s))"

definition b64_add :: "binary64 \<Rightarrow> binary64 \<Rightarrow> binary64" where
  "b64_add x y =
     (let e = min (snd x) (snd y)
      in round53 (fst x * 2 ^ nat (snd x - e) + fst y * 2 ^ nat (snd y - e)) e)"

definition b64_mult :: "binary64 \<Rightarrow> binary64 \<Rightarrow> binary64" where
  "b64_mult x y = round53 (fst x * fst y) (snd x + snd y)"

text \<open>\<^verbatim>\<open>txs.reduce((sum, t) => sum + t.investedAmount, 0)\<close> on the amounts of a ledger.\<close>

definition totalInvested_b64 :: "binary64 list \<Rightarrow> binary64" where
  "totalInvested_b64 amounts = foldl b64_add (0, 0) amounts"

subsection \<open>The effect of one step\<close>

text \<open>
  What every branch of the loop body establishes: the transaction carries the date and the
  price of the scheduled row, the running total grows by the shares bought, and the
  transaction records the new total and its value at that price.
\<close>

definition step_ok :: "sim_state \<Rightarrow> MarketDataPoint \<Rightarrow> sim_state \<Rightarrow> DcaTransaction \<Rightarrow> bool" where
  "step_ok st pt st' t =
     (date t = pt_date pt \<and> price t = pt_price pt \<and> accumulatedShares t = totalShares st' \<and>
      totalShares st' = totalShares st + sharesBought t \<and>
      portfolioValue t = accumulatedShares t * price t)"

subsection \<open>Inputs used in the examples\<close>

text \<open>The form's initial state (the \<^verbatim>\<open>useState\<close> defaults of the component).\<close>

definition defaultConfig :: RuleConfig where
  "defaultConfig =
     \<lparr>frequency = Monthly, baseAmount = 100, useDcaStrict = False, useSellInMay = False,
      useRsiRule = False, useSma20Rule = False, useSma50Rule = False, useSmaRule = True,
      useSma200Rule = True, useVixRule = False, sma20Multiplier = 2, sma50Multiplier = 2,
      sma100Multiplier = 2, sma200Multiplier = 2, vixMultiplier = 3, vixThreshold = 40\<rparr>"

text \<open>
  A row of the series with the given date, price and SMA-20; the other averages equal the
  price, the weekly RSI is the neutral 50 and there is no VIX reading.
\<close>

definition row :: "nat \<Rightarrow> nat \<Rightarrow> nat \<Rightarrow> real \<Rightarrow> real \<Rightarrow> MarketDataPoint" where
  "row y m d p s =
     \<lparr>pt_date = \<lparr>year = y, month = m, day = d\<rparr>, pt_price = p, sma20 = Some s,
      sma50 = Some p, sma100 = Some p, sma200 = Some p, rsiWeekly = Some 50, vix = None\<rparr>"

section \<open>Properties of the financial calculations\<close>

subsection \<open>calculateRSI\<close>

lemma length_wilder: "length (wilder gains losses period is avgGain avgLoss) = length is"
  by (induction "is" arbitrary: avgGain avgLoss) (simp_all add: Let_def)

text \<open>
  C8. \<open>calculateRSI prices period\<close> has the length of \<open>prices\<close>; when \<open>prices\<close> is shorter
  than \<open>period + 1\<close> every value is the neutral 50, and otherwise the first \<open>period\<close>
  values are 50.
\<close>

theorem calculateRSI_neutral_prefix:
  "length (calculateRSI prices period) = length prices \<and>
   (length prices < period + 1 \<longrightarrow> (\<forall>v \<in> set (calculateRSI prices period). v = 50)) \<and>
   (\<not> length prices < period + 1 \<longrightarrow> take period (calculateRSI prices period) = replicate period 50)"
  by (auto simp: calculateRSI_def Let_def length_wilder)

theorem calculateRSI_neutral_prefix_witness:
  "length (calculateRSI [1, 2, 4] 2) = 3 \<and>
   \<not> length [1, 2, 4 :: real] < 2 + 1 \<and>
   take 2 (calculateRSI [1, 2, 4] 2) = replicate 2 50 \<and>
   length [1, 2 :: real] < 2 + 1 \<and>
   list_all (\<lambda>v. v = 50) (calculateRSI [1, 2] 2)"
  using calculateRSI_neutral_prefix [of "[1, 2, 4]" 2] calculateRSI_neutral_prefix [of "[1, 2]" 2]
  by (simp add: list_all_iff)

lemma calculateRSI_example: "calculateRSI [1, 2, 4] 2 = [50, 50, 100 - 100 / 101]"
  by code_simp

subsection \<open>calculateMaxDrawdown\<close>

lemma dd_loop_monotone:
  "0 < st_peak st \<Longrightarrow> \<forall>p \<in> set ps. st_peak st \<le> vp_value p \<Longrightarrow> sorted (map vp_value ps) \<Longrightarrow>
   st_maxDrawdown st = 0 \<Longrightarrow>
   st_maxDrawdown (dd_loop ps st) = 0 \<and>
   st_series (dd_loop ps st) = st_series st @ map (\<lambda>p. \<lparr>dd_date = vp_date p, drawdown = 0\<rparr>) ps \<and>
   st_peak (dd_loop ps st) = (if ps = [] then st_peak st else vp_value (last ps))"
proof (induction ps arbitrary: st)
  case Nil
  then show ?case by simp
next
  case (Cons p ps)
  let ?st1 = "if vp_value p > st_peak st
              then st\<lparr>st_peak := vp_value p, st_peakDate := vp_date p\<rparr> else st"
  have pk: "st_peak ?st1 = vp_value p" using Cons.prems(2) by auto
  let ?st3 = "?st1\<lparr>st_series := st_series st @ [\<lparr>dd_date = vp_date p, drawdown = 0\<rparr>]\<rparr>"
  have step: "dd_loop (p # ps) st = dd_loop ps ?st3"
    using pk Cons.prems(4) by (simp add: Let_def)
  have "0 < st_peak ?st3" using pk Cons.prems(1,2) by auto
  moreover have "\<forall>q \<in> set ps. st_peak ?st3 \<le> vp_value q" using pk Cons.prems(3) by auto
  moreover have "sorted (map vp_value ps)" using Cons.prems(3) by simp
  moreover have "st_maxDrawdown ?st3 = 0" using Cons.prems(4) by simp
  ultimately have IH:
    "st_maxDrawdown (dd_loop ps ?st3) = 0 \<and>
     st_series (dd_loop ps ?st3)
       = st_series ?st3 @ map (\<lambda>p. \<lparr>dd_date = vp_date p, drawdown = 0\<rparr>) ps \<and>
     st_peak (dd_loop ps ?st3) = (if ps = [] then st_peak ?st3 else vp_value (last ps))"
    by (rule Cons.IH)
  show ?case unfolding step using IH pk by auto
qed

text \<open>
  C9. On a non-empty series of positive values that never decreases,
  \<open>calculateMaxDrawdown\<close> returns a maximal drawdown of 0, a current drawdown of 0, and a
  drawdown series with one point per input date, each with drawdown 0.
\<close>

theorem calculateMaxDrawdown_monotone:
  assumes "portfolioValues \<noteq> []"
    and "sorted (map vp_value portfolioValues)"
    and "\<forall>p \<in> set portfolioValues. 0 < vp_value p"
  shows "maxDrawdown (calculateMaxDrawdown portfolioValues) = 0 \<and>
         currentDrawdown (calculateMaxDrawdown portfolioValues) = 0 \<and>
         drawdownSeries (calculateMaxDrawdown portfolioValues) =
           map (\<lambda>p. \<lparr>dd_date = vp_date p, drawdown = 0\<rparr>) portfolioValues"
proof -
  obtain p0 rest where pv: "portfolioValues = p0 # rest"
    using assms(1) by (cases portfolioValues) auto
  let ?st0 = "\<lparr>st_peak = vp_value p0, st_peakDate = vp_date p0, st_maxDrawdown = 0,
               st_maxDrawdownPeakDate = vp_date p0, st_maxDrawdownTroughDate = vp_date p0,
               st_series = []\<rparr>"
  have "0 < st_peak ?st0" using assms(3) pv by simp
  moreover have "\<forall>p \<in> set portfolioValues. st_peak ?st0 \<le> vp_value p" using assms(2) pv by auto
  moreover have "st_maxDrawdown ?st0 = 0" by simp
  ultimately have L:
    "st_maxDrawdown (dd_loop portfolioValues ?st0) = 0 \<and>
     st_series (dd_loop portfolioValues ?st0)
       = st_series ?st0 @ map (\<lambda>p. \<lparr>dd_date = vp_date p, drawdown = 0\<rparr>) portfolioValues \<and>
     st_peak (dd_loop portfolioValues ?st0)
       = (if portfolioValues = [] then st_peak ?st0 else vp_value (last portfolioValues))"
    using assms(2) by (intro dd_loop_monotone)
  show ?thesis using L assms(1) by (simp add: calculateMaxDrawdown_def pv Let_def)
qed

theorem calculateMaxDrawdown_monotone_witness:
  "sorted (map vp_value
      [\<lparr>vp_date = \<lparr>year = 2024, month = 1, day = 2\<rparr>, vp_value = 100\<rparr>,
       \<lparr>vp_date = \<lparr>year = 2024, month = 2, day = 1\<rparr>, vp_value = 100\<rparr>,
       \<lparr>vp_date = \<lparr>year = 2024, month = 3, day = 1\<rparr>, vp_value = 250\<rparr>]) \<and>
   maxDrawdown (calculateMaxDrawdown
      [\<lparr>vp_date = \<lparr>year = 2024, month = 1, day = 2\<rparr>, vp_value = 100\<rparr>,
       \<lparr>vp_date = \<lparr>year = 2024, month = 2, day = 1\<rparr>, vp_value = 100\<rparr>,
       \<lparr>vp_date = \<lparr>year = 2024, month = 3, day = 1\<rparr>, vp_value = 250\<rparr>]) = 0 \<and>
   currentDrawdown (calculateMaxDrawdown
      [\<lparr>vp_date = \<lparr>year = 2024, month = 1, day = 2\<rparr>, vp_value = 100\<rparr>,
       \<lparr>vp_date = \<lparr>year = 2024, month = 2, day = 1\<rparr>, vp_value = 100\<rparr>,
       \<lparr>vp_date = \<lparr>year = 2024, month = 3, day = 1\<rparr>, vp_value = 250\<rparr>]) = 0"
  using calculateMaxDrawdown_monotone
     [of "[\<lparr>vp_date = \<lparr>year = 2024, month = 1, day = 2\<rparr>, vp_value = 100\<rparr>,
           \<lparr>vp_date = \<lparr>year = 2024, month = 2, day = 1\<rparr>, vp_value = 100\<rparr>,
           \<lparr>vp_date = \<lparr>year = 2024, month = 3, day = 1\<rparr>, vp_value = 250\<rparr>]"]
  by simp

text \<open>A series that falls does have a drawdown: from 100 to 50 it is 50 percent.\<close>

lemma calculateMaxDrawdown_example:
  "maxDrawdown (calculateMaxDrawdown
      [\<lparr>vp_date = \<lparr>year = 2024, month = 1, day = 2\<rparr>, vp_value = 100\<rparr>,
       \<lparr>vp_date = \<lparr>year = 2024, month = 2, day = 1\<rparr>, vp_value = 50\<rparr>]) = 50"
  by (simp add: calculateMaxDrawdown_def Let_def)

subsection \<open>calculateBestWorstMonths\<close>

lemma sorted_hd_le_last:
  "sorted (map f xs) \<Longrightarrow> xs \<noteq> [] \<Longrightarrow> f (hd xs) \<le> f (last xs)"
  by (induction xs) (auto split: if_splits)

text \<open>
  C10. For a ledger whose portfolio values are positive, the return of the best month
  that \<open>calculateBestWorstMonths\<close> reports is at least the return of the worst month;
  with fewer than two transactions both returns are 0.
\<close>

theorem calculateBestWorstMonths_ordered:
  assumes "\<forall>t \<in> set transactions. 0 < portfolioValue t"
  shows "mr_return (snd (calculateBestWorstMonths transactions))
           \<le> mr_return (fst (calculateBestWorstMonths transactions)) \<and>
         (length transactions < 2 \<longrightarrow>
            mr_return (fst (calculateBestWorstMonths transactions)) = 0 \<and>
            mr_return (snd (calculateBestWorstMonths transactions)) = 0)"
proof (cases "length transactions < 2")
  case True
  then show ?thesis by (simp add: calculateBestWorstMonths_def)
next
  case False
  obtain pmv cm mrs where L:
    "months_loop (hd transactions) (tl transactions) (portfolioValue (hd transactions))
       (monthKey (date (hd transactions))) [] = (pmv, cm, mrs)"
    by (cases "months_loop (hd transactions) (tl transactions) (portfolioValue (hd transactions))
                 (monthKey (date (hd transactions))) []") auto
  let ?all = "mrs @ [\<lparr>mr_month = Some cm,
                      mr_return = (portfolioValue (last transactions) - pmv) / pmv * 100\<rparr>]"
  let ?s = "sort_key (\<lambda>m. - mr_return m) ?all"
  have ne: "?s \<noteq> []"
    by (metis length_sort list.size(3) snoc_eq_iff_butlast length_0_conv)
  have "sorted (map (\<lambda>m. - mr_return m) ?s)" by (rule sorted_sort_key)
  then have "- mr_return (hd ?s) \<le> - mr_return (last ?s)"
    using ne by (rule sorted_hd_le_last)
  then show ?thesis using False L by (simp add: calculateBestWorstMonths_def Let_def)
qed

theorem calculateBestWorstMonths_ordered_witness:
  "mr_return (snd (calculateBestWorstMonths
      [\<lparr>date = \<lparr>year = 2024, month = 1, day = 2\<rparr>, price = 10, investedAmount = 100,
        sharesBought = 10, accumulatedShares = 10, portfolioValue = 100,
        multiplierApplied = 1, reason = []\<rparr>,
       \<lparr>date = \<lparr>year = 2024, month = 2, day = 1\<rparr>, price = 15, investedAmount = 0,
        sharesBought = 0, accumulatedShares = 10, portfolioValue = 150,
        multiplierApplied = 0, reason = []\<rparr>,
       \<lparr>date = \<lparr>year = 2024, month = 3, day = 1\<rparr>, price = 12, investedAmount = 0,
        sharesBought = 0, accumulatedShares = 10, portfolioValue = 120,
        multiplierApplied = 0, reason = []\<rparr>]))
   \<le> mr_return (fst (calculateBestWorstMonths
      [\<lparr>date = \<lparr>year = 2024, month = 1, day = 2\<rparr>, price = 10, investedAmount = 100,
        sharesBought = 10, accumulatedShares = 10, portfolioValue = 100,
        multiplierApplied = 1, reason = []\<rparr>,
       \<lparr>date = \<lparr>year = 2024, month = 2, day = 1\<rparr>, price = 15, investedAmount = 0,
        sharesBought = 0, accumulatedShares = 10, portfolioValue = 150,
        multiplierApplied = 0, reason = []\<rparr>,
       \<lparr>date = \<lparr>year = 2024, month = 3, day = 1\<rparr>, price = 12, investedAmount = 0,
        sharesBought = 0, accumulatedShares = 10, portfolioValue = 120,
        multiplierApplied = 0, reason = []\<rparr>]))"
  using calculateBestWorstMonths_ordered
    [of "[\<lparr>date = \<lparr>year = 2024, month = 1, day = 2\<rparr>, price = 10, investedAmount = 100,
        sharesBought = 10, accumulatedShares = 10, portfolioValue = 100,
        multiplierApplied = 1, reason = []\<rparr>,
       \<lparr>date = \<lparr>year = 2024, month = 2, day = 1\<rparr>, price = 15, investedAmount = 0,
        sharesBought = 0, accumulatedShares = 10, portfolioValue = 150,
        multiplierApplied = 0, reason = []\<rparr>,
       \<lparr>date = \<lparr>year = 2024, month = 3, day = 1\<rparr>, price = 12, investedAmount = 0,
        sharesBought = 0, accumulatedShares = 10, portfolioValue = 120,
        multiplierApplied = 0, reason = []\<rparr>]"]
  by simp

subsection \<open>calculateXIRR\<close>

















section \<open>Properties of the backtest engine\<close>

subsection \<open>One scheduled date\<close>

text \<open>A rule sees the price below its average when the average is present, not 0 and larger.\<close>

lemma currentBelowSma_iff:
  "currentBelowSma sma p \<longleftrightarrow> (\<exists>s. sma = Some s \<and> s \<noteq> 0 \<and> p < s)"
  by (cases sma) (simp_all add: currentBelowSma_def)

lemma fst_smaRules:
  "fst (smaRules cfg pt (m0, r)) =
     m0 + (if useSma20Rule cfg \<and> currentBelowSma (sma20 pt) (pt_price pt) then sma20Multiplier cfg - 1 else 0)
        + (if useSma50Rule cfg \<and> currentBelowSma (sma50 pt) (pt_price pt) then sma50Multiplier cfg - 1 else 0)
        + (if useSmaRule cfg \<and> currentBelowSma (sma100 pt) (pt_price pt) then sma100Multiplier cfg - 1 else 0)
        + (if useSma200Rule cfg \<and> currentBelowSma (sma200 pt) (pt_price pt) then sma200Multiplier cfg - 1 else 0)"
  by (simp add: smaRules_def Let_def)

lemma fst_vixRule:
  "fst (vixRule cfg maxVixMap pt mr) =
     fst mr + (if useVixRule cfg \<and> maxVixSincePrev maxVixMap pt > vixThreshold cfg
               then vixMultiplier cfg - 1 else 0)"
  by (cases mr) (simp add: vixRule_def)

lemma multiplier_rules:
  "fst (vixRule cfg maxVixMap pt (smaRules cfg pt (1, r))) =
     1 + (if useSma20Rule cfg \<and> currentBelowSma (sma20 pt) (pt_price pt) then sma20Multiplier cfg - 1 else 0)
       + (if useSma50Rule cfg \<and> currentBelowSma (sma50 pt) (pt_price pt) then sma50Multiplier cfg - 1 else 0)
       + (if useSmaRule cfg \<and> currentBelowSma (sma100 pt) (pt_price pt) then sma100Multiplier cfg - 1 else 0)
       + (if useSma200Rule cfg \<and> currentBelowSma (sma200 pt) (pt_price pt) then sma200Multiplier cfg - 1 else 0)
       + (if useVixRule cfg \<and> maxVixSincePrev maxVixMap pt > vixThreshold cfg
          then vixMultiplier cfg - 1 else 0)"
  unfolding fst_vixRule fst_smaRules by (rule refl)

lemma multiplier_rules_reasons:
  "fst (vixRule cfg maxVixMap pt (smaRules cfg pt (1, r))) =
   fst (vixRule cfg maxVixMap pt (smaRules cfg pt (1, [])))"
  unfolding multiplier_rules by (rule refl)

lemma multiplier_rules_ge_1:
  assumes "1 \<le> sma20Multiplier cfg" "1 \<le> sma50Multiplier cfg" "1 \<le> sma100Multiplier cfg"
    "1 \<le> sma200Multiplier cfg" "1 \<le> vixMultiplier cfg"
  shows "1 \<le> fst (vixRule cfg maxVixMap pt (smaRules cfg pt (1, r)))"
  unfolding multiplier_rules using assms by (simp add: add_nonneg_nonneg)

lemma skipTx_ok: "step_ok st pt (st\<lparr>savedCash := c\<rparr>) (skipTx st pt rs)" "step_ok st pt st (skipTx st pt rs)"
  by (simp_all add: step_ok_def skipTx_def)

lemma investTx_ok:
  "investTx cfg maxVixMap st pt amount rs = (st', t) \<Longrightarrow>
   step_ok st pt st' t \<and>
   multiplierApplied t = fst (vixRule cfg maxVixMap pt (smaRules cfg pt (1, []))) \<and>
   investedAmount t = amount * multiplierApplied t \<and>
   sharesBought t = investedAmount t / pt_price pt"
  using multiplier_rules_reasons [of cfg maxVixMap pt rs]
  by (auto simp: investTx_def Let_def step_ok_def split: prod.splits)

lemma rsiStage_ok:
  assumes "rsiStage cfg maxVixMap st pt amount rs = (st', t)" and "0 < amount"
  shows "step_ok st pt st' t \<and>
   (investedAmount t = 0 \<and> sharesBought t = 0 \<and> multiplierApplied t = 0 \<or>
    multiplierApplied t = fst (vixRule cfg maxVixMap pt (smaRules cfg pt (1, []))) \<and>
    (\<exists>a > 0. investedAmount t = a * multiplierApplied t) \<and>
    sharesBought t = investedAmount t / pt_price pt)"
proof -
  consider (skip) rsi where "st' = st\<lparr>savedCash := savedCash st + baseAmount cfg\<rparr>"
      "t = skipTx st pt [RsiSkip rsi (savedCash st + baseAmount cfg)]"
    | (deploy) "0 < savedCash st"
      "investTx cfg maxVixMap (st\<lparr>savedCash := 0\<rparr>) pt (amount + savedCash st)
                 (rs @ [RsiDeploy (savedCash st)]) = (st', t)"
    | (plain) "investTx cfg maxVixMap st pt amount rs = (st', t)"
    using assms(1) by (auto simp: rsiStage_def Let_def split: option.splits if_splits)
  then show ?thesis
  proof cases
    case skip
    then show ?thesis using skipTx_ok(1) by (simp add: skipTx_def)
  next
    case deploy
    from investTx_ok [OF deploy(2)] deploy(1) assms(2) show ?thesis
      by (auto simp: step_ok_def intro!: exI [of _ "amount + savedCash st"])
  next
    case plain
    from investTx_ok [OF plain] assms(2) show ?thesis by auto
  qed
qed

lemma dca_step_ok:
  assumes "dca_step cfg ss bonus maxVixMap st pt = (st', t)"
  shows "step_ok st pt st' t \<and>
   (useDcaStrict cfg \<longrightarrow> investedAmount t = baseAmount cfg \<and> multiplierApplied t = 1 \<and>
      sharesBought t = baseAmount cfg / pt_price pt) \<and>
   (\<not> useDcaStrict cfg \<longrightarrow>
     (investedAmount t = 0 \<and> sharesBought t = 0 \<and> multiplierApplied t = 0 \<or>
      multiplierApplied t = fst (vixRule cfg maxVixMap pt (smaRules cfg pt (1, []))) \<and>
      (\<exists>a > 0. investedAmount t = a * multiplierApplied t) \<and>
      sharesBought t = investedAmount t / pt_price pt))"
proof (cases "useDcaStrict cfg")
  case True
  then show ?thesis using assms by (auto simp: dca_step_def Let_def step_ok_def)
next
  case False
  let ?inDebt = "budgetDebt st \<ge> baseAmount cfg"
  let ?st1 = "if ?inDebt then st\<lparr>budgetDebt := budgetDebt st - baseAmount cfg\<rparr> else st"
  let ?eff = "if ?inDebt then 0 else baseAmount cfg"
  let ?rs1 = "if ?inDebt then [DebtBalancing (budgetDebt ?st1)] else []"
  let ?bonus = "useSellInMay cfg \<and> \<not> isSummerMonth (pt_date pt) \<and> bonus > 0"
  let ?amount = "if ?bonus then ?eff + bonus else ?eff"
  let ?rs2 = "if ?bonus then ?rs1 @ [SellInMayBonus bonus] else ?rs1"
  have step: "dca_step cfg ss bonus maxVixMap st pt =
      (if useSellInMay cfg \<and> isSummerMonth (pt_date pt) then (st, skipTx st pt [SellInMaySkip ss])
       else if ?amount \<le> 0 then (?st1, skipTx ?st1 pt ?rs2)
       else rsiStage cfg maxVixMap ?st1 pt ?amount ?rs2)"
    using False unfolding dca_step_def Let_def by simp
  have ts: "totalShares ?st1 = totalShares st" by simp
  show ?thesis
  proof (cases "useSellInMay cfg \<and> isSummerMonth (pt_date pt)")
    case True
    with step assms have "st' = st" "t = skipTx st pt [SellInMaySkip ss]" by simp_all
    then show ?thesis using False by (simp add: step_ok_def skipTx_def)
  next
    case notSummer: False
    show ?thesis
    proof (cases "?amount \<le> 0")
      case True
      with step assms notSummer have "st' = ?st1" "t = skipTx ?st1 pt ?rs2" by simp_all
      then show ?thesis using False ts by (simp add: step_ok_def skipTx_def)
    next
      case pos: False
      with step assms notSummer have r: "rsiStage cfg maxVixMap ?st1 pt ?amount ?rs2 = (st', t)"
        by simp
      have "0 < ?amount" using pos by simp
      from rsiStage_ok [OF r this] ts False show ?thesis by (simp add: step_ok_def)
    qed
  qed
qed

subsection \<open>The loops\<close>

lemma dedupMonths_subset: "set (dedupMonths seen pts) \<subseteq> set pts"
  by (induction pts arbitrary: seen) (auto simp: Let_def)

lemma filteredDates_subset: "set (filteredDates freq data) \<subseteq> set data"
  using dedupMonths_subset [of "{}" "dcaDates freq data"]
  by (auto simp: filteredDates_def dcaDates_def)

lemma dedupMonths_distinct:
  "distinct (map (\<lambda>p. monthKey (pt_date p)) (dedupMonths seen pts)) \<and>
   (\<forall>p \<in> set (dedupMonths seen pts). monthKey (pt_date p) \<notin> seen)"
proof (induction pts arbitrary: seen)
  case Nil
  show ?case by simp
next
  case (Cons pt pts)
  from Cons.IH [of seen] Cons.IH [of "insert (monthKey (pt_date pt)) seen"]
  show ?case by (auto simp: Let_def)
qed

text \<open>The monthly schedule has one date per calendar month.\<close>

lemma monthly_one_per_month:
  "distinct (map (\<lambda>p. monthKey (pt_date p)) (filteredDates Monthly data))"
  using dedupMonths_distinct [of "{}" "dcaDates Monthly data"] by (simp add: filteredDates_def)

text \<open>
  Every date of the quarterly schedule is one of the first three days of January, April,
  July or October.
\<close>

lemma quarterly_dates:
  "\<forall>p \<in> set (filteredDates Quarterly data).
     getDate (pt_date p) \<le> 3 \<and> getMonth (pt_date p) \<in> {0, 3, 6, 9}"
  by (auto simp: filteredDates_def dcaDates_def Let_def)

lemma sim_loop_dates:
  "map date (sim_loop cfg ss bonus m st fd) = map pt_date fd \<and>
   map price (sim_loop cfg ss bonus m st fd) = map pt_price fd"
proof (induction fd arbitrary: st)
  case Nil
  show ?case by simp
next
  case (Cons pt fd)
  obtain st' t where s: "dca_step cfg ss bonus m st pt = (st', t)" by force
  from dca_step_ok [OF s] Cons.IH [of st'] s show ?case by (simp add: step_ok_def)
qed

lemma sim_loop_value:
  "\<forall>t \<in> set (sim_loop cfg ss bonus m st fd). portfolioValue t = accumulatedShares t * price t"
proof (induction fd arbitrary: st)
  case Nil
  show ?case by simp
next
  case (Cons pt fd)
  obtain st' t where s: "dca_step cfg ss bonus m st pt = (st', t)" by force
  from dca_step_ok [OF s] Cons.IH [of st'] s show ?case by (simp add: step_ok_def)
qed

lemma sim_loop_strict:
  assumes "useDcaStrict cfg"
  shows "\<forall>t \<in> set (sim_loop cfg ss bonus m st fd).
           investedAmount t = baseAmount cfg \<and> multiplierApplied t = 1"
proof (induction fd arbitrary: st)
  case Nil
  show ?case by simp
next
  case (Cons pt fd)
  obtain st' t where s: "dca_step cfg ss bonus m st pt = (st', t)" by force
  from dca_step_ok [OF s] Cons.IH [of st'] s assms show ?case by simp
qed

lemma sim_loop_multiplier:
  assumes "\<not> useDcaStrict cfg"
  shows "list_all2 (\<lambda>pt t. date t = pt_date pt \<and> (investedAmount t \<noteq> 0 \<longrightarrow>
            multiplierApplied t = fst (vixRule cfg m pt (smaRules cfg pt (1, [])))))
           fd (sim_loop cfg ss bonus m st fd)"
proof (induction fd arbitrary: st)
  case Nil
  show ?case by simp
next
  case (Cons pt fd)
  obtain st' t where s: "dca_step cfg ss bonus m st pt = (st', t)" by force
  from dca_step_ok [OF s] Cons.IH [of st'] s assms show ?case by (auto simp: step_ok_def)
qed

lemma sim_loop_running:
  "i < length (sim_loop cfg ss bonus m st fd) \<Longrightarrow>
   accumulatedShares (sim_loop cfg ss bonus m st fd ! i) =
     totalShares st + sum_list (take (Suc i) (map sharesBought (sim_loop cfg ss bonus m st fd)))"
proof (induction fd arbitrary: st i)
  case Nil
  then show ?case by simp
next
  case (Cons pt fd)
  obtain st' t where s: "dca_step cfg ss bonus m st pt = (st', t)" by force
  have ok: "accumulatedShares t = totalShares st'" "totalShares st' = totalShares st + sharesBought t"
    using dca_step_ok [OF s] by (simp_all add: step_ok_def)
  show ?case
  proof (cases i)
    case 0
    then show ?thesis using s ok by simp
  next
    case (Suc j)
    then have "j < length (sim_loop cfg ss bonus m st' fd)" using Cons.prems s by simp
    from Cons.IH [OF this] Suc s ok show ?thesis by simp
  qed
qed

lemma sim_loop_sorted:
  assumes "\<forall>pt \<in> set fd. 0 < pt_price pt"
    and "useDcaStrict cfg \<Longrightarrow> 0 \<le> baseAmount cfg"
    and "\<not> useDcaStrict cfg \<Longrightarrow>
           1 \<le> sma20Multiplier cfg \<and> 1 \<le> sma50Multiplier cfg \<and> 1 \<le> sma100Multiplier cfg \<and>
           1 \<le> sma200Multiplier cfg \<and> 1 \<le> vixMultiplier cfg"
  shows "sorted (map accumulatedShares (sim_loop cfg ss bonus m st fd)) \<and>
         (\<forall>t \<in> set (sim_loop cfg ss bonus m st fd). totalShares st \<le> accumulatedShares t)"
  using assms(1)
proof (induction fd arbitrary: st)
  case Nil
  show ?case by simp
next
  case (Cons pt fd)
  obtain st' t where s: "dca_step cfg ss bonus m st pt = (st', t)" by force
  have pos: "0 < pt_price pt" using Cons.prems by simp
  have ok: "accumulatedShares t = totalShares st'" "totalShares st' = totalShares st + sharesBought t"
    using dca_step_ok [OF s] by (simp_all add: step_ok_def)
  have nonneg: "0 \<le> sharesBought t"
  proof (cases "useDcaStrict cfg")
    case True
    then show ?thesis using dca_step_ok [OF s] pos assms(2) by simp
  next
    case False
    have M: "1 \<le> fst (vixRule cfg m pt (smaRules cfg pt (1, [])))"
      using assms(3) [OF False] by (intro multiplier_rules_ge_1) simp_all
    from False consider "sharesBought t = 0"
      | a where "0 < a" "multiplierApplied t = fst (vixRule cfg m pt (smaRules cfg pt (1, [])))"
          "investedAmount t = a * multiplierApplied t" "sharesBought t = investedAmount t / pt_price pt"
      using dca_step_ok [OF s] by auto
    then show ?thesis
    proof cases
      case 1
      then show ?thesis by simp
    next
      case 2
      then have "0 \<le> investedAmount t" using M by simp
      then show ?thesis using 2(4) pos by simp
    qed
  qed
  have IH: "sorted (map accumulatedShares (sim_loop cfg ss bonus m st' fd)) \<and>
         (\<forall>t \<in> set (sim_loop cfg ss bonus m st' fd). totalShares st' \<le> accumulatedShares t)"
    using Cons.prems by (intro Cons.IH) simp
  show ?case using s IH ok nonneg by auto
qed

lemma import_loop_fields:
  "list_all2 (\<lambda>ptx t. date t = ptx_date ptx \<and> price t = ptx_price ptx \<and>
      portfolioValue t = accumulatedShares t * valuationPrice data ptx)
     ptxs (import_loop data acc ptxs)"
  by (induction ptxs arbitrary: acc) (simp_all add: Let_def)

lemma import_loop_running:
  "i < length (import_loop data acc ptxs) \<Longrightarrow>
   accumulatedShares (import_loop data acc ptxs ! i) =
     acc + sum_list (take (Suc i) (map sharesBought (import_loop data acc ptxs)))"
proof (induction ptxs arbitrary: acc i)
  case Nil
  then show ?case by simp
next
  case (Cons ptx ptxs)
  show ?case
  proof (cases i)
    case 0
    then show ?thesis by (simp add: Let_def)
  next
    case (Suc j)
    then have "j < length (import_loop data (acc + quantity ptx) ptxs)"
      using Cons.prems by (simp add: Let_def)
    from Cons.IH [OF this] Suc show ?thesis by (simp add: Let_def)
  qed
qed

lemma import_loop_sorted:
  "\<forall>p \<in> set ptxs. 0 \<le> quantity p \<Longrightarrow>
   sorted (map accumulatedShares (import_loop data acc ptxs)) \<and>
   (\<forall>t \<in> set (import_loop data acc ptxs). acc \<le> accumulatedShares t)"
proof (induction ptxs arbitrary: acc)
  case Nil
  show ?case by simp
next
  case (Cons ptx ptxs)
  have "sorted (map accumulatedShares (import_loop data (acc + quantity ptx) ptxs)) \<and>
   (\<forall>t \<in> set (import_loop data (acc + quantity ptx) ptxs). acc + quantity ptx \<le> accumulatedShares t)"
    using Cons.prems by (intro Cons.IH) simp
  then show ?case using Cons.prems by (auto simp: Let_def)
qed

subsection \<open>The ledger\<close>

text \<open>The definitions that the evaluation of a run on a concrete series unfolds.\<close>

lemmas engine_defs =
  simulate_def buildTransactions_def backtestLedger_def filteredDates_def dcaDates_def
  getDate_def getMonth_def getDay_def monthKey_def isSummerMonth_def summerDates_def
  winterDates_def summerSavings_def sellInMayBonus_def maxVixSincePrevDcaMap_def
  maxVixSincePrev_def dca_step_def rsiStage_def investTx_def smaRules_def vixRule_def
  currentBelowSma_def skipTx_def valuationPrice_def pricePoint_def
  wasAboveSma20Map_def row_def defaultConfig_def Let_def

text \<open>
  The double-precision sum of 0.2 and 0.1, the binary64 numbers \<open>7205759403792794 / 2 ^ 55\<close>
  and \<open>7205759403792794 / 2 ^ 56\<close>, is \<open>5404319552844596 / 2 ^ 54\<close>, printed
  0.30000000000000004.
\<close>

lemma b64_add_example:
  "b64_add (7205759403792794, - 55) (7205759403792794, - 56) = (5404319552844596, - 54)"
  by (simp add: b64_add_def round53_def Let_def bit_length.simps)

lemma map_const_replicate:
  "\<forall>x \<in> set xs. f x = c \<Longrightarrow> map f xs = replicate (length xs) c"
  by (induction xs) simp_all

text \<open>
  C5, as amended. In strict mode every scheduled date produces exactly one transaction,
  on that date, with \<open>investedAmount = baseAmount\<close> and \<open>multiplierApplied = 1\<close>,
  whatever the other flags, multipliers and indicator values are: the invested amounts of
  the ledger are \<open>N\<close> copies of the base amount, and with a non-empty schedule
  \<^verbatim>\<open>runBacktest\<close> does not throw. The total invested is the sum of these \<open>N\<close>
  copies in double precision, which is \<open>baseAmount * N\<close> up to rounding only.
\<close>

theorem strict_mode_invests_base:
  assumes "useDcaStrict cfg"
  shows "map date (simulate cfg data) = map pt_date (filteredDates (frequency cfg) data) \<and>
     map investedAmount (simulate cfg data)
       = replicate (length (filteredDates (frequency cfg) data)) (baseAmount cfg) \<and>
     map multiplierApplied (simulate cfg data)
       = replicate (length (filteredDates (frequency cfg) data)) 1 \<and>
     (filteredDates (frequency cfg) data \<noteq> [] \<longrightarrow>
        backtestLedger cfg False portfolioTxs data = Inr (simulate cfg data))"
proof -
  let ?fd = "filteredDates (frequency cfg) data"
  have d: "map date (simulate cfg data) = map pt_date ?fd"
    using sim_loop_dates by (simp add: simulate_def Let_def)
  then have len: "length (simulate cfg data) = length ?fd" by (metis length_map)
  have a: "\<forall>t \<in> set (simulate cfg data). investedAmount t = baseAmount cfg \<and> multiplierApplied t = 1"
    using sim_loop_strict [OF assms] by (simp add: simulate_def Let_def)
  have i: "map investedAmount (simulate cfg data) = replicate (length (simulate cfg data)) (baseAmount cfg)"
    using a by (intro map_const_replicate) simp
  have m: "map multiplierApplied (simulate cfg data) = replicate (length (simulate cfg data)) 1"
    using a by (intro map_const_replicate) simp
  have "?fd \<noteq> [] \<longrightarrow> backtestLedger cfg False portfolioTxs data = Inr (simulate cfg data)"
    using len by (auto simp: backtestLedger_def buildTransactions_def Let_def)
  then show ?thesis using d i m len by simp
qed

theorem strict_mode_invests_base_witness:
  "map investedAmount (simulate (defaultConfig\<lparr>useDcaStrict := True, useVixRule := True\<rparr>)
     [row 2024 1 2 90 100, row 2024 1 3 80 100, row 2024 2 1 120 100]) = [100, 100] \<and>
   map multiplierApplied (simulate (defaultConfig\<lparr>useDcaStrict := True, useVixRule := True\<rparr>)
     [row 2024 1 2 90 100, row 2024 1 3 80 100, row 2024 2 1 120 100]) = [1, 1] \<and>
   backtestLedger (defaultConfig\<lparr>useDcaStrict := True, useVixRule := True\<rparr>) False []
     [row 2024 1 2 90 100, row 2024 1 3 80 100, row 2024 2 1 120 100]
   = Inr (simulate (defaultConfig\<lparr>useDcaStrict := True, useVixRule := True\<rparr>)
     [row 2024 1 2 90 100, row 2024 1 3 80 100, row 2024 2 1 120 100])"
proof -
  have fd: "filteredDates Monthly [row 2024 1 2 90 100, row 2024 1 3 80 100, row 2024 2 1 120 100]
      = [row 2024 1 2 90 100, row 2024 2 1 120 100]"
    by (simp add: filteredDates_def dcaDates_def row_def getDate_def monthKey_def)
  have c: "useDcaStrict (defaultConfig\<lparr>useDcaStrict := True, useVixRule := True\<rparr>)"
    "frequency (defaultConfig\<lparr>useDcaStrict := True, useVixRule := True\<rparr>) = Monthly"
    "baseAmount (defaultConfig\<lparr>useDcaStrict := True, useVixRule := True\<rparr>) = 100"
    by (simp_all add: defaultConfig_def)
  have r: "replicate (length [row 2024 1 2 90 100, row 2024 2 1 120 100]) x = [x, x]" for x :: real
    by simp
  show ?thesis
    using strict_mode_invests_base [OF c(1), of "[row 2024 1 2 90 100, row 2024 1 3 80 100, row 2024 2 1 120 100]" "[]"]
    unfolding c fd r by simp
qed

text \<open>
  Strict mode on ten daily rows with the base amount 0.1, that is the binary64 number
  \<open>7205759403792794 / 2 ^ 56\<close>. Every transaction invests that amount; their sum in
  double precision is \<open>1 - 1 / 2 ^ 53\<close> (printed 0.9999999999999999), while ten
  times the base amount is 1 in double precision and \<open>1 + 1 / 2 ^ 54\<close> exactly.
\<close>

theorem strict_total_rounding_counterexample:
  "map investedAmount
     (simulate (defaultConfig\<lparr>frequency := Daily, baseAmount := b64_value (7205759403792794, - 56),
                               useDcaStrict := True\<rparr>)
       [row 2024 1 1 10 10, row 2024 1 2 10 10, row 2024 1 3 10 10, row 2024 1 4 10 10,
        row 2024 1 5 10 10, row 2024 1 6 10 10, row 2024 1 7 10 10, row 2024 1 8 10 10,
        row 2024 1 9 10 10, row 2024 1 10 10 10])
   = map b64_value
       [(7205759403792794, - 56), (7205759403792794, - 56), (7205759403792794, - 56),
        (7205759403792794, - 56), (7205759403792794, - 56), (7205759403792794, - 56),
        (7205759403792794, - 56), (7205759403792794, - 56), (7205759403792794, - 56),
        (7205759403792794, - 56)] \<and>
   b64_value (totalInvested_b64
       [(7205759403792794, - 56), (7205759403792794, - 56), (7205759403792794, - 56),
        (7205759403792794, - 56), (7205759403792794, - 56), (7205759403792794, - 56),
        (7205759403792794, - 56), (7205759403792794, - 56), (7205759403792794, - 56),
        (7205759403792794, - 56)]) = 1 - 1 / 2 ^ 53 \<and>
   b64_value (b64_mult (7205759403792794, - 56) (10, 0)) = 1 \<and>
   b64_value (7205759403792794, - 56) * 10 = 1 + 1 / 2 ^ 54"
  by (simp add: engine_defs totalInvested_b64_def b64_add_def b64_mult_def round53_def
      b64_value_def bit_length.simps)

text \<open>
  C4, as amended. In simulation mode every transaction has
  \<open>portfolioValue = accumulatedShares * price\<close>. In portfolio-import mode the \<open>price\<close>
  field is the imported unit price, and \<open>portfolioValue\<close> is \<open>accumulatedShares\<close> times
  the market price joined to the transaction's date: the price of the series' row of that
  date, else of its last row, and the imported price only when that market price is 0 or
  the series is empty.
\<close>

theorem portfolioValue_by_mode:
  "(\<forall>t \<in> set (simulate cfg data). portfolioValue t = accumulatedShares t * price t) \<and>
   list_all2 (\<lambda>ptx t. price t = ptx_price ptx \<and>
                portfolioValue t = accumulatedShares t * valuationPrice data ptx)
     portfolioTxs (import_loop data 0 portfolioTxs)"
proof -
  have "list_all2 (\<lambda>ptx t. price t = ptx_price ptx \<and>
                portfolioValue t = accumulatedShares t * valuationPrice data ptx)
     portfolioTxs (import_loop data 0 portfolioTxs)"
    by (rule list_all2_mono [OF import_loop_fields]) simp
  then show ?thesis using sim_loop_value by (simp add: simulate_def Let_def)
qed

theorem portfolioValue_by_mode_witness:
  "list_all (\<lambda>t. portfolioValue t = accumulatedShares t * price t)
     (simulate defaultConfig [row 2024 1 2 120 120]) \<and>
   list_all2 (\<lambda>ptx t. price t = ptx_price ptx \<and>
                portfolioValue t = accumulatedShares t * valuationPrice [row 2024 1 2 120 120] ptx)
     [\<lparr>ptx_date = \<lparr>year = 2024, month = 1, day = 2\<rparr>, quantity = 1, ptx_price = 100,
        invested_amount = 100\<rparr>]
     (import_loop [row 2024 1 2 120 120] 0
        [\<lparr>ptx_date = \<lparr>year = 2024, month = 1, day = 2\<rparr>, quantity = 1, ptx_price = 100,
        invested_amount = 100\<rparr>])"
  using portfolioValue_by_mode [of defaultConfig "[row 2024 1 2 120 120]"
      "[\<lparr>ptx_date = \<lparr>year = 2024, month = 1, day = 2\<rparr>, quantity = 1, ptx_price = 100,
        invested_amount = 100\<rparr>]"]
  unfolding list_all_iff by blast

text \<open>
  An imported purchase of one share at 100 on a day the market closes at 120: the
  transaction keeps the price 100 and one accumulated share, and its portfolio value is 120.
\<close>

theorem import_value_counterexample:
  "map price (buildTransactions defaultConfig True
      [\<lparr>ptx_date = \<lparr>year = 2024, month = 1, day = 2\<rparr>, quantity = 1, ptx_price = 100,
        invested_amount = 100\<rparr>] [row 2024 1 2 120 120]) = [100] \<and>
   map accumulatedShares (buildTransactions defaultConfig True
      [\<lparr>ptx_date = \<lparr>year = 2024, month = 1, day = 2\<rparr>, quantity = 1, ptx_price = 100,
        invested_amount = 100\<rparr>] [row 2024 1 2 120 120]) = [1] \<and>
   map portfolioValue (buildTransactions defaultConfig True
      [\<lparr>ptx_date = \<lparr>year = 2024, month = 1, day = 2\<rparr>, quantity = 1, ptx_price = 100,
        invested_amount = 100\<rparr>] [row 2024 1 2 120 120]) = [120]"
  by (simp add: buildTransactions_def valuationPrice_def pricePoint_def row_def Let_def)

text \<open>
  C1, as amended. With strict mode off, every scheduled date has one transaction, and
  whenever that transaction invests something its multiplier is 1 plus, for each enabled
  SMA rule (20, 50, 100, 200) whose average is present, not 0 and strictly above the
  date's price, that rule's multiplier minus 1, plus the VIX boost when the VIX rule
  fires. The previous day's price is not consulted: the \<open>wasAboveSmaNMap\<close> maps are
  built and never read.
\<close>

theorem sma_boost_while_below:
  assumes "\<not> useDcaStrict cfg"
  shows "list_all2
     (\<lambda>pt t. date t = pt_date pt \<and>
        (investedAmount t \<noteq> 0 \<longrightarrow>
         multiplierApplied t =
           1 + (if useSma20Rule cfg \<and> currentBelowSma (sma20 pt) (pt_price pt)
                then sma20Multiplier cfg - 1 else 0)
             + (if useSma50Rule cfg \<and> currentBelowSma (sma50 pt) (pt_price pt)
                then sma50Multiplier cfg - 1 else 0)
             + (if useSmaRule cfg \<and> currentBelowSma (sma100 pt) (pt_price pt)
                then sma100Multiplier cfg - 1 else 0)
             + (if useSma200Rule cfg \<and> currentBelowSma (sma200 pt) (pt_price pt)
                then sma200Multiplier cfg - 1 else 0)
             + (if useVixRule cfg \<and>
                   maxVixSincePrev (maxVixSincePrevDcaMap data (filteredDates (frequency cfg) data)) pt
                     > vixThreshold cfg
                then vixMultiplier cfg - 1 else 0)))
     (filteredDates (frequency cfg) data) (simulate cfg data)"
  using sim_loop_multiplier [OF assms]
  unfolding simulate_def Let_def multiplier_rules by blast

theorem sma_boost_while_below_witness:
  "list_all2
     (\<lambda>pt t. date t = pt_date pt \<and>
        (investedAmount t \<noteq> 0 \<longrightarrow>
         multiplierApplied t =
           1 + (if useSma20Rule (defaultConfig\<lparr>useSma20Rule := True\<rparr>) \<and> currentBelowSma (sma20 pt) (pt_price pt)
                then sma20Multiplier (defaultConfig\<lparr>useSma20Rule := True\<rparr>) - 1 else 0)
             + (if useSma50Rule (defaultConfig\<lparr>useSma20Rule := True\<rparr>) \<and> currentBelowSma (sma50 pt) (pt_price pt)
                then sma50Multiplier (defaultConfig\<lparr>useSma20Rule := True\<rparr>) - 1 else 0)
             + (if useSmaRule (defaultConfig\<lparr>useSma20Rule := True\<rparr>) \<and> currentBelowSma (sma100 pt) (pt_price pt)
                then sma100Multiplier (defaultConfig\<lparr>useSma20Rule := True\<rparr>) - 1 else 0)
             + (if useSma200Rule (defaultConfig\<lparr>useSma20Rule := True\<rparr>) \<and> currentBelowSma (sma200 pt) (pt_price pt)
                then sma200Multiplier (defaultConfig\<lparr>useSma20Rule := True\<rparr>) - 1 else 0)
             + (if useVixRule (defaultConfig\<lparr>useSma20Rule := True\<rparr>) \<and>
                   maxVixSincePrev (maxVixSincePrevDcaMap [row 2024 1 2 90 100, row 2024 2 1 120 100]
                      (filteredDates (frequency (defaultConfig\<lparr>useSma20Rule := True\<rparr>)) [row 2024 1 2 90 100, row 2024 2 1 120 100])) pt
                     > vixThreshold (defaultConfig\<lparr>useSma20Rule := True\<rparr>)
                then vixMultiplier (defaultConfig\<lparr>useSma20Rule := True\<rparr>) - 1 else 0)))
     (filteredDates (frequency (defaultConfig\<lparr>useSma20Rule := True\<rparr>)) [row 2024 1 2 90 100, row 2024 2 1 120 100])
     (simulate (defaultConfig\<lparr>useSma20Rule := True\<rparr>) [row 2024 1 2 90 100, row 2024 2 1 120 100])"
  by (rule sma_boost_while_below) (simp add: defaultConfig_def)

text \<open>
  A weekly schedule with the SMA-20 rule at multiplier 2. On Sunday 7 January 2024 the
  price 90 is below the average 100, on Monday 8 January the price 80 is below it again:
  the map says the previous day was not above, and the Monday still invests twice the base.
\<close>

theorem sma_crossing_counterexample:
  "wasAboveSma20Map [row 2024 1 7 90 100, row 2024 1 8 80 100] \<lparr>year = 2024, month = 1, day = 8\<rparr>
     = Some False \<and>
   map date (simulate (defaultConfig\<lparr>frequency := Weekly, useSma20Rule := True\<rparr>)
               [row 2024 1 7 90 100, row 2024 1 8 80 100]) = [\<lparr>year = 2024, month = 1, day = 8\<rparr>] \<and>
   map investedAmount (simulate (defaultConfig\<lparr>frequency := Weekly, useSma20Rule := True\<rparr>)
               [row 2024 1 7 90 100, row 2024 1 8 80 100]) = [200] \<and>
   map multiplierApplied (simulate (defaultConfig\<lparr>frequency := Weekly, useSma20Rule := True\<rparr>)
               [row 2024 1 7 90 100, row 2024 1 8 80 100]) = [2]"
  by (simp add: engine_defs)

text \<open>In both modes the recorded total is the running sum of the shares bought.\<close>

lemma accumulatedShares_is_running_sum:
  assumes "i < length (buildTransactions cfg usePortfolio portfolioTxs data)"
  shows "accumulatedShares (buildTransactions cfg usePortfolio portfolioTxs data ! i) =
     sum_list (take (Suc i) (map sharesBought (buildTransactions cfg usePortfolio portfolioTxs data)))"
proof (cases "usePortfolio \<and> portfolioTxs \<noteq> []")
  case True
  then have b: "buildTransactions cfg usePortfolio portfolioTxs data = import_loop data 0 portfolioTxs"
    by (simp add: buildTransactions_def)
  show ?thesis using assms unfolding b by (simp add: import_loop_running)
next
  case False
  then have b: "buildTransactions cfg usePortfolio portfolioTxs data = simulate cfg data"
    by (auto simp: buildTransactions_def)
  show ?thesis using assms unfolding b simulate_def Let_def by (simp add: sim_loop_running)
qed

lemma ledger_lengths:
  "length (buildTransactions defaultConfig False [] [row 2024 1 2 90 100, row 2024 2 1 120 100]) = 2"
  "length (buildTransactions defaultConfig True
      [\<lparr>ptx_date = \<lparr>year = 2024, month = 1, day = 2\<rparr>, quantity = 1, ptx_price = 100, invested_amount = 100\<rparr>,
       \<lparr>ptx_date = \<lparr>year = 2024, month = 2, day = 1\<rparr>, quantity = 2, ptx_price = 110, invested_amount = 220\<rparr>]
      [row 2024 1 2 90 100, row 2024 2 1 120 100]) = 2"
  by (simp_all add: engine_defs)

text \<open>
  C6, as amended. In both modes the \<open>accumulatedShares\<close> of each transaction is the sum
  of \<open>sharesBought\<close> over it and all earlier ones. The \<open>accumulatedShares\<close> never
  decrease along the ledger in import mode with non-negative quantities, in strict
  simulation mode with positive prices and a non-negative base amount, and in the other
  simulation runs with positive prices and rule multipliers of at least 1.
\<close>

theorem accumulatedShares_running_sum:
  "(\<forall>i < length (buildTransactions cfg usePortfolio portfolioTxs data).
      accumulatedShares (buildTransactions cfg usePortfolio portfolioTxs data ! i) =
      sum_list (take (Suc i)
        (map sharesBought (buildTransactions cfg usePortfolio portfolioTxs data)))) \<and>
   ((if usePortfolio \<and> portfolioTxs \<noteq> [] then \<forall>p \<in> set portfolioTxs. 0 \<le> quantity p
     else (\<forall>pt \<in> set data. 0 < pt_price pt) \<and>
          (if useDcaStrict cfg then 0 \<le> baseAmount cfg
           else 1 \<le> sma20Multiplier cfg \<and> 1 \<le> sma50Multiplier cfg \<and>
                1 \<le> sma100Multiplier cfg \<and> 1 \<le> sma200Multiplier cfg \<and>
                1 \<le> vixMultiplier cfg))
    \<longrightarrow> sorted (map accumulatedShares (buildTransactions cfg usePortfolio portfolioTxs data)))"
proof (intro conjI impI allI)
  fix i
  assume "i < length (buildTransactions cfg usePortfolio portfolioTxs data)"
  then show "accumulatedShares (buildTransactions cfg usePortfolio portfolioTxs data ! i) =
      sum_list (take (Suc i) (map sharesBought (buildTransactions cfg usePortfolio portfolioTxs data)))"
    by (rule accumulatedShares_is_running_sum)
next
  assume h: "if usePortfolio \<and> portfolioTxs \<noteq> [] then \<forall>p \<in> set portfolioTxs. 0 \<le> quantity p
     else (\<forall>pt \<in> set data. 0 < pt_price pt) \<and>
          (if useDcaStrict cfg then 0 \<le> baseAmount cfg
           else 1 \<le> sma20Multiplier cfg \<and> 1 \<le> sma50Multiplier cfg \<and>
                1 \<le> sma100Multiplier cfg \<and> 1 \<le> sma200Multiplier cfg \<and>
                1 \<le> vixMultiplier cfg)"
  show "sorted (map accumulatedShares (buildTransactions cfg usePortfolio portfolioTxs data))"
  proof (cases "usePortfolio \<and> portfolioTxs \<noteq> []")
    case True
    then have b: "buildTransactions cfg usePortfolio portfolioTxs data = import_loop data 0 portfolioTxs"
      by (simp add: buildTransactions_def)
    from h True have "\<forall>p \<in> set portfolioTxs. 0 \<le> quantity p" by simp
    then show ?thesis unfolding b using import_loop_sorted by blast
  next
    case False
    then have b: "buildTransactions cfg usePortfolio portfolioTxs data = simulate cfg data"
      by (auto simp: buildTransactions_def)
    let ?fd = "filteredDates (frequency cfg) data"
    from h False have p: "\<forall>pt \<in> set data. 0 < pt_price pt"
      and c: "if useDcaStrict cfg then 0 \<le> baseAmount cfg
           else 1 \<le> sma20Multiplier cfg \<and> 1 \<le> sma50Multiplier cfg \<and>
                1 \<le> sma100Multiplier cfg \<and> 1 \<le> sma200Multiplier cfg \<and>
                1 \<le> vixMultiplier cfg"
      by simp_all
    have p': "\<forall>pt \<in> set ?fd. 0 < pt_price pt"
      using p filteredDates_subset [of "frequency cfg" data] by auto
    have c1: "useDcaStrict cfg \<Longrightarrow> 0 \<le> baseAmount cfg" using c by simp
    have c2: "\<not> useDcaStrict cfg \<Longrightarrow>
           1 \<le> sma20Multiplier cfg \<and> 1 \<le> sma50Multiplier cfg \<and> 1 \<le> sma100Multiplier cfg \<and>
           1 \<le> sma200Multiplier cfg \<and> 1 \<le> vixMultiplier cfg" using c by simp
    show ?thesis unfolding b simulate_def Let_def
      using sim_loop_sorted [OF p' c1 c2] by blast
  qed
qed

theorem accumulatedShares_running_sum_witness:
  "sorted (map accumulatedShares
     (buildTransactions defaultConfig False [] [row 2024 1 2 90 100, row 2024 2 1 120 100])) \<and>
   sorted (map accumulatedShares
     (buildTransactions (defaultConfig\<lparr>useDcaStrict := True\<rparr>) False []
        [row 2024 1 2 90 100, row 2024 2 1 120 100])) \<and>
   accumulatedShares
     (buildTransactions defaultConfig False [] [row 2024 1 2 90 100, row 2024 2 1 120 100] ! 1)
   = sum_list (take 2 (map sharesBought
       (buildTransactions defaultConfig False [] [row 2024 1 2 90 100, row 2024 2 1 120 100]))) \<and>
   sorted (map accumulatedShares
     (buildTransactions defaultConfig True
      [\<lparr>ptx_date = \<lparr>year = 2024, month = 1, day = 2\<rparr>, quantity = 1, ptx_price = 100, invested_amount = 100\<rparr>,
       \<lparr>ptx_date = \<lparr>year = 2024, month = 2, day = 1\<rparr>, quantity = 2, ptx_price = 110, invested_amount = 220\<rparr>]
      [row 2024 1 2 90 100, row 2024 2 1 120 100])) \<and>
   accumulatedShares
     (buildTransactions defaultConfig True
      [\<lparr>ptx_date = \<lparr>year = 2024, month = 1, day = 2\<rparr>, quantity = 1, ptx_price = 100, invested_amount = 100\<rparr>,
       \<lparr>ptx_date = \<lparr>year = 2024, month = 2, day = 1\<rparr>, quantity = 2, ptx_price = 110, invested_amount = 220\<rparr>]
      [row 2024 1 2 90 100, row 2024 2 1 120 100] ! 1)
   = sum_list (take 2 (map sharesBought
       (buildTransactions defaultConfig True
      [\<lparr>ptx_date = \<lparr>year = 2024, month = 1, day = 2\<rparr>, quantity = 1, ptx_price = 100, invested_amount = 100\<rparr>,
       \<lparr>ptx_date = \<lparr>year = 2024, month = 2, day = 1\<rparr>, quantity = 2, ptx_price = 110, invested_amount = 220\<rparr>]
      [row 2024 1 2 90 100, row 2024 2 1 120 100])))"
proof -
  let ?data = "[row 2024 1 2 90 100, row 2024 2 1 120 100]"
  let ?ptxs = "[\<lparr>ptx_date = \<lparr>year = 2024, month = 1, day = 2\<rparr>, quantity = 1, ptx_price = 100, invested_amount = 100\<rparr>,
       \<lparr>ptx_date = \<lparr>year = 2024, month = 2, day = 1\<rparr>, quantity = 2, ptx_price = 110, invested_amount = 220\<rparr>]"
  have sim: "(\<forall>pt \<in> set ?data. 0 < pt_price pt) \<and> \<not> useDcaStrict defaultConfig \<and>
          1 \<le> sma20Multiplier defaultConfig \<and> 1 \<le> sma50Multiplier defaultConfig \<and>
          1 \<le> sma100Multiplier defaultConfig \<and>
          1 \<le> sma200Multiplier defaultConfig \<and> 1 \<le> vixMultiplier defaultConfig"
    by (simp add: defaultConfig_def row_def)
  have imp: "\<forall>p \<in> set ?ptxs. 0 \<le> quantity p" by simp
  have strict: "(\<forall>pt \<in> set ?data. 0 < pt_price pt) \<and>
          useDcaStrict (defaultConfig\<lparr>useDcaStrict := True\<rparr>) \<and>
          0 \<le> baseAmount (defaultConfig\<lparr>useDcaStrict := True\<rparr>)"
    by (simp add: defaultConfig_def row_def)
  have one: "Suc (Suc 0) = 2" by simp
  from accumulatedShares_running_sum [of defaultConfig False "[]" ?data]
       accumulatedShares_running_sum [of defaultConfig True ?ptxs ?data]
       accumulatedShares_running_sum [of "defaultConfig\<lparr>useDcaStrict := True\<rparr>" False "[]" ?data]
       ledger_lengths sim imp strict
  show ?thesis by (auto simp: one)
qed

text \<open>
  Strict mode with a base amount of -100 on two daily rows at the price 10: each date buys
  -10 shares, and the accumulated shares go from -10 to -20.
\<close>

theorem negative_base_counterexample:
  "map accumulatedShares
     (buildTransactions (defaultConfig\<lparr>frequency := Daily, baseAmount := - 100, useDcaStrict := True\<rparr>)
        False [] [row 2024 1 2 10 10, row 2024 1 3 10 10]) = [- 10, - 20] \<and>
   \<not> sorted (map accumulatedShares
     (buildTransactions (defaultConfig\<lparr>frequency := Daily, baseAmount := - 100, useDcaStrict := True\<rparr>)
        False [] [row 2024 1 2 10 10, row 2024 1 3 10 10]))"
  by (simp add: engine_defs)

subsection \<open>Sell in May over a full year\<close>

text \<open>
  C2. A monthly schedule over the twelve months of 2024 with a base amount of 100, Sell in
  May on and every other rule off: four summer dates invest nothing and the bonus of a
  winter date is 50. The bonus counts as overspending, so the debt reaches the base amount
  after two winter dates and the third one is waived down to the bonus alone: the year
  invests 1000, not the 1200 of twelve base amounts.
\<close>

theorem sell_in_may_full_year:
  "map investedAmount
     (simulate (defaultConfig\<lparr>useSellInMay := True, useSmaRule := False, useSma200Rule := False\<rparr>)
     [row 2024 1 2 10 10, row 2024 2 2 10 10, row 2024 3 2 10 10, row 2024 4 2 10 10,
      row 2024 5 2 10 10, row 2024 6 2 10 10, row 2024 7 2 10 10, row 2024 8 2 10 10,
      row 2024 9 2 10 10, row 2024 10 2 10 10, row 2024 11 2 10 10, row 2024 12 2 10 10])
   = [150, 150, 50, 150, 0, 0, 0, 0, 150, 50, 150, 150] \<and>
   sum_list (map investedAmount
     (simulate (defaultConfig\<lparr>useSellInMay := True, useSmaRule := False, useSma200Rule := False\<rparr>)
     [row 2024 1 2 10 10, row 2024 2 2 10 10, row 2024 3 2 10 10, row 2024 4 2 10 10,
      row 2024 5 2 10 10, row 2024 6 2 10 10, row 2024 7 2 10 10, row 2024 8 2 10 10,
      row 2024 9 2 10 10, row 2024 10 2 10 10, row 2024 11 2 10 10, row 2024 12 2 10 10])) = 1000 \<and>
   baseAmount (defaultConfig\<lparr>useSellInMay := True, useSmaRule := False, useSma200Rule := False\<rparr>)
     * real (length (filteredDates Monthly
     [row 2024 1 2 10 10, row 2024 2 2 10 10, row 2024 3 2 10 10, row 2024 4 2 10 10,
      row 2024 5 2 10 10, row 2024 6 2 10 10, row 2024 7 2 10 10, row 2024 8 2 10 10,
      row 2024 9 2 10 10, row 2024 10 2 10 10, row 2024 11 2 10 10, row 2024 12 2 10 10])) = 1200"
  by (simp add: engine_defs)

subsection \<open>The quarterly schedule\<close>

text \<open>
  C3. A series with 1, 2, 3 and 4 January 2024: the quarterly schedule keeps the first
  three days, where the monthly schedule of the same series keeps the first only.
\<close>

theorem quarterly_not_deduplicated:
  "filteredDates Quarterly [row 2024 1 1 10 10, row 2024 1 2 10 10, row 2024 1 3 10 10, row 2024 1 4 10 10]
     = [row 2024 1 1 10 10, row 2024 1 2 10 10, row 2024 1 3 10 10] \<and>
   filteredDates Monthly [row 2024 1 1 10 10, row 2024 1 2 10 10, row 2024 1 3 10 10, row 2024 1 4 10 10]
     = [row 2024 1 1 10 10]"
  by (simp add: filteredDates_def dcaDates_def row_def getDate_def getMonth_def monthKey_def)

end
